theory Spec2Isabelle
  imports Main
begin

section \<open>Benchmark configuration (package config)\<close>

text \<open>
  The struct declarations of package \<^verbatim>\<open>config\<close> are not among the sources; the records
  below hold exactly the fields that \<^verbatim>\<open>forward.go\<close> reads and writes
  (\<^verbatim>\<open>cfg.C\<close>, \<^verbatim>\<open>cfg.N\<close>, \<^verbatim>\<open>cfg.Name\<close>, \<^verbatim>\<open>HTTP.Method\<close>, \<^verbatim>\<open>HTTP.Path\<close>,
  \<^verbatim>\<open>Benchmarks.Defaults.C\<close>, \<^verbatim>\<open>Benchmarks.Defaults.N\<close>, \<^verbatim>\<open>Benchmarks.Containers\<close>).
  Go's \<^verbatim>\<open>int\<close> fields are only copied and compared with zero, never computed with,
  so they are integers here.
\<close>

record HTTP =
  http_Method :: string
  http_Path :: string

record BenchConfig =
  cfg_Name :: string
  cfg_C :: int
  cfg_N :: int
  cfg_HTTP :: HTTP

text \<open>The zero value of the struct, which a Go map lookup yields for a missing key.\<close>

definition zeroConfig :: BenchConfig where
  "zeroConfig =
     \<lparr>cfg_Name = [], cfg_C = 0, cfg_N = 0, cfg_HTTP = \<lparr>http_Method = [], http_Path = []\<rparr>\<rparr>"

record Benchmarks =
  Defaults_C :: int
  Defaults_N :: int
  Containers :: "string \<rightharpoonup> BenchConfig"

text \<open>
  The constants of the packages \<^verbatim>\<open>config\<close> and \<^verbatim>\<open>resource\<close> that the views use. Their
  values are not among the sources, so they are parameters of the model.
\<close>

record pkg_consts =
  K9sHome :: string
  K9sBench :: string
  DefaultC :: int
  DefaultN :: int
  DefaultMethod :: string
  AllNamespaces :: string

definition defaultConfig :: "pkg_consts \<Rightarrow> BenchConfig" where
  "defaultConfig k =
     \<lparr>cfg_Name = [], cfg_C = DefaultC k, cfg_N = DefaultN k,
      cfg_HTTP = \<lparr>http_Method = DefaultMethod k, http_Path = ''/''\<rparr>\<rparr>"

definition loadConfig ::
  "int \<Rightarrow> int \<Rightarrow> string \<Rightarrow> (string \<rightharpoonup> BenchConfig) \<Rightarrow> int \<times> int \<times> BenchConfig" where
  "loadConfig dc dn ident cc =
     (case cc ident of
        None \<Rightarrow> (dc, dn, zeroConfig)
      | Some cfg \<Rightarrow>
          (if cfg_C cfg \<noteq> 0 then cfg_C cfg else dc,
           if cfg_N cfg \<noteq> 0 then cfg_N cfg else dn,
           cfg))"

section \<open>Sessions, the benchmark slot and the application state\<close>

text \<open>
  Modelled from the spec: \<^verbatim>\<open>k8s.PortForward\<close> (its package is not among the sources).
  The spec's session is \<^verbatim>\<open>{fqn, path, container, localPort, podPort, active}\<close> with
  \<^verbatim>\<open>fqn = path + "|" + container\<close>; \<^verbatim>\<open>Ports()\<close> is the slice
  \<^verbatim>\<open>[localPort + ":" + podPort]\<close> that \<^verbatim>\<open>portForward\<close> hands to \<^verbatim>\<open>Start\<close>, so it
  always has an element 0. \<^verbatim>\<open>Stop\<close> stops the session's background transport, recorded
  in \<^verbatim>\<open>pf_stopped\<close>; \<^verbatim>\<open>Age()\<close> is an opaque display string.
\<close>

record PortForward =
  pf_path :: string
  pf_container :: string
  pf_localPort :: string
  pf_podPort :: string
  pf_active :: bool
  pf_stopped :: bool
  pf_age :: string

definition Ports :: "PortForward \<Rightarrow> string list" where
  "Ports pf = [pf_localPort pf @ '':'' @ pf_podPort pf]"

definition FQN :: "PortForward \<Rightarrow> string" where
  "FQN pf = pf_path pf @ ''|'' @ pf_container pf"

definition SetActive :: "bool \<Rightarrow> PortForward \<Rightarrow> PortForward" where
  "SetActive b pf = pf\<lparr>pf_active := b\<rparr>"

definition Stop :: "PortForward \<Rightarrow> PortForward" where
  "Stop pf = pf\<lparr>pf_stopped := True\<rparr>"

text \<open>
  Modelled from the spec: the struct \<^verbatim>\<open>benchmark\<close> of package views (its file is not
  among the sources). The views read its \<^verbatim>\<open>canceled\<close> flag and call \<^verbatim>\<open>cancel()\<close>, which
  by the spec requests cancellation and is idempotent.
\<close>

record benchmark =
  bm_config :: BenchConfig
  bm_canceled :: bool

definition cancel :: "benchmark \<Rightarrow> benchmark" where
  "cancel b = b\<lparr>bm_canceled := True\<rparr>"

text \<open>
  Helper functions of the repository whose bodies are not among the sources, and
  \<^verbatim>\<open>filepath.Join\<close> of the standard library. They are parameters: every theorem below
  holds for all of them. \<^verbatim>\<open>newBenchmark\<close> returns a pointer and an error, both of which
  the caller receives.
\<close>

record helpers =
  containerID :: "string \<Rightarrow> string \<Rightarrow> string"
  fwFQN :: "string \<Rightarrow> string \<Rightarrow> string"
  fqn :: "string \<Rightarrow> string \<Rightarrow> string"
  namespaced :: "string \<Rightarrow> string \<times> string"
  urlFor :: "BenchConfig \<Rightarrow> string \<Rightarrow> string \<Rightarrow> string"
  asNum :: "int \<Rightarrow> string"
  newBenchmark :: "string \<Rightarrow> BenchConfig \<Rightarrow> benchmark option \<times> string option"
  filepath_Join :: "string \<Rightarrow> string \<Rightarrow> string"

type_synonym addr = nat

datatype panic = NilDereference

datatype level = flashInfo | flashWarn | flashErr

text \<open>
  The closures handed to the UI-thread dispatcher (\<^verbatim>\<open>QueueUpdate\<close>, \<^verbatim>\<open>QueueUpdateDraw\<close>),
  one constructor per closure of the sources, with the variables it captures: the session
  pointer \<^verbatim>\<open>pf\<close>, or the forwards view \<^verbatim>\<open>v\<close> whose \<^verbatim>\<open>runBenchmark\<close> queued it.
\<close>

datatype job =
    RegisterForward addr
  | UnregisterForward addr
  | BenchDone nat
  | ResetStatus

text \<open>
  The goroutines launched by \<^verbatim>\<open>go\<close> statements; \<^verbatim>\<open>runBenchmark\<close> is a method of a
  forwards view, which the tag names.
\<close>

datatype goroutine =
    GoRunForward addr
  | GoRunBenchmark nat
  | GoStatusTimer
  | GoUpdateBenchConfig

text \<open>
  What the operator or the log sees, in order: \<^verbatim>\<open>app.flash()\<close> messages,
  \<^verbatim>\<open>app.status\<close>, \<^verbatim>\<open>app.statusReset\<close>, log lines (format and arguments), and calls
  into the widget framework.
\<close>

datatype effect =
    Flash level string
  | Status level string
  | StatusReset
  | Log string "string list"
  | DismissModal
  | ShowModal string
  | TableUpdate

text \<open>
  The fields of one \<^verbatim>\<open>forwardView\<close>: its benchmark slot \<^verbatim>\<open>bench\<close>, and of its table
  the selected row, the cells (\<^verbatim>\<open>fv_cells r c\<close> is \<^verbatim>\<open>trimCell(tv, r, c)\<close>), the command
  buffer and the open delete prompt. Every forwards view has fields of its own.
\<close>

record fview =
  fv_bench :: "benchmark option"
  fv_selRow :: nat
  fv_cells :: "nat \<Rightarrow> nat \<Rightarrow> string"
  fv_cmdBuff :: string
  fv_modal :: "string option"

text \<open>
  The state of the program as far as the views of the sources reach it: the fields of
  \<^verbatim>\<open>appView\<close> that all views share (\<^verbatim>\<open>forwarders\<close>, the loaded benchmark file
  \<^verbatim>\<open>app.bench.Benchmarks\<close>, the current cluster, the dispatcher's queue), the forwards
  views built so far, and the fields of the \<^verbatim>\<open>containerView\<close> (\<^verbatim>\<open>path\<close>,
  \<^verbatim>\<open>selectedRow\<close>, the master page's cells).
  \<^verbatim>\<open>forwarders\<close> maps a key to a pointer; \<^verbatim>\<open>objs\<close> is the store the pointers refer
  to, and \<^verbatim>\<open>nextAddr\<close> the next unused pointer. In the same way \<^verbatim>\<open>views\<close> is the
  store of the forwards views and \<^verbatim>\<open>nextView\<close> the next unused one; \<^verbatim>\<open>cur\<close> is the
  forwards view on display, the receiver \<^verbatim>\<open>v\<close> of the key handlers. A closure keeps the
  view that queued it, on display or not.
\<close>

record ui_state =
  forwarders :: "string \<rightharpoonup> addr"
  objs :: "addr \<Rightarrow> PortForward"
  nextAddr :: addr
  app_bench :: Benchmarks
  CurrentCluster :: string
  updates :: "job list"
  effects :: "effect list"
  spawned :: "goroutine list"
  views :: "nat \<Rightarrow> fview"
  cur :: nat
  nextView :: nat
  cv_path :: string
  selectedRow :: nat
  masterPage :: "nat \<Rightarrow> nat \<Rightarrow> string"

text \<open>The fields of the receiver \<^verbatim>\<open>v\<close>, the forwards view on display.\<close>

abbreviation bench :: "ui_state \<Rightarrow> benchmark option" where
  "bench v \<equiv> fv_bench (views v (cur v))"

abbreviation selRow :: "ui_state \<Rightarrow> nat" where
  "selRow v \<equiv> fv_selRow (views v (cur v))"

abbreviation cells :: "ui_state \<Rightarrow> nat \<Rightarrow> nat \<Rightarrow> string" where
  "cells v \<equiv> fv_cells (views v (cur v))"

abbreviation cmdBuff :: "ui_state \<Rightarrow> string" where
  "cmdBuff v \<equiv> fv_cmdBuff (views v (cur v))"

abbreviation modal :: "ui_state \<Rightarrow> string option" where
  "modal v \<equiv> fv_modal (views v (cur v))"

text \<open>An assignment to a field of the forwards view \<^verbatim>\<open>i\<close>.\<close>

definition upd_view :: "nat \<Rightarrow> (fview \<Rightarrow> fview) \<Rightarrow> ui_state \<Rightarrow> ui_state" where
  "upd_view i f v = v\<lparr>views := (views v)(i := f (views v i))\<rparr>"

definition set_bench :: "nat \<Rightarrow> benchmark option \<Rightarrow> ui_state \<Rightarrow> ui_state" where
  "set_bench i x v = upd_view i (\<lambda>w. w\<lparr>fv_bench := x\<rparr>) v"

definition emit :: "effect list \<Rightarrow> ui_state \<Rightarrow> ui_state" where
  "emit es v = v\<lparr>effects := effects v @ es\<rparr>"

section \<open>The forwards view: benchmark handlers\<close>

definition getSelectedItem :: "helpers \<Rightarrow> ui_state \<Rightarrow> string" where
  "getSelectedItem h v =
     (let r = selRow v in
      if r = 0 then ''''
      else fwFQN h (fqn h (cells v r 0) (cells v r 1)) (cells v r 2))"

definition benchStopCmd :: "ui_state \<Rightarrow> ui_state" where
  "benchStopCmd v =
     (let v1 = (case bench v of
                  None \<Rightarrow> v
                | Some b \<Rightarrow>
                    set_bench (cur v) (Some (cancel b))
                      (emit [Log ''>>> Benchmark canceled!!'' [],
                             Status flashErr ''Benchmark Camceled!''] v))
      in emit [StatusReset] v1)"

definition benchCmd :: "helpers \<Rightarrow> pkg_consts \<Rightarrow> ui_state \<Rightarrow> ui_state" where
  "benchCmd h k v =
     (let sel = getSelectedItem h v in
      if sel = '''' then v
      else if bench v \<noteq> None then
        emit [Flash flashErr ''Only one benchmark allowed at a time''] v
      else
        let r = selRow v;
            co = cells v r 2;
            cfg0 = (case Containers (app_bench v) (containerID h sel co) of
                      Some b \<Rightarrow> b
                    | None \<Rightarrow> defaultConfig k);
            cfg = cfg0\<lparr>cfg_Name := sel\<rparr>;
            base = cells v r 4;
            res = newBenchmark h base cfg;
            v1 = set_bench (cur v) (fst res) v
        in (case snd res of
              Some err \<Rightarrow> emit [Flash flashErr (''Bench failed '' @ err), StatusReset] v1
            | None \<Rightarrow>
                (emit [Status flashWarn ''Benchmark in progress...'',
                       Log ''Bench starting...'' []] v1)
                  \<lparr>spawned := spawned v1 @ [GoRunBenchmark (cur v)]\<rparr>))"

text \<open>
  The closure that \<^verbatim>\<open>runBenchmark\<close> of the forwards view \<^verbatim>\<open>i\<close> queues when the load
  generator has finished. It reads and clears the slot of that view, whichever view is
  on display then. \<^verbatim>\<open>v.bench.canceled\<close> dereferences the slot.
\<close>

definition benchDone :: "nat \<Rightarrow> ui_state \<Rightarrow> panic + ui_state" where
  "benchDone i v =
     (case fv_bench (views v i) of
        None \<Rightarrow> Inl NilDereference
      | Some b \<Rightarrow>
          (let v1 = (if bm_canceled b then emit [Status flashInfo ''Benchmark canceled''] v
                     else set_bench i (Some (cancel b))
                            (emit [Status flashInfo ''Benchmark Completed!''] v));
               v2 = set_bench i None v1
           in Inr (v2\<lparr>spawned := spawned v2 @ [GoStatusTimer]\<rparr>)))"

section \<open>The forwards view: deleting a forward\<close>

definition deleteCmd :: "helpers \<Rightarrow> ui_state \<Rightarrow> ui_state" where
  "deleteCmd h v =
     (if cmdBuff v \<noteq> [] then upd_view (cur v) (\<lambda>w. w\<lparr>fv_cmdBuff := []\<rparr>) v
      else
        let sel = getSelectedItem h v in
        if sel = '''' then v
        else upd_view (cur v) (\<lambda>w. w\<lparr>fv_modal := Some sel\<rparr>)
               (emit [ShowModal (''Delete PortForward `'' @ sel @ ''?'')] v))"

text \<open>
  The closure that \<^verbatim>\<open>deleteCmd\<close> hands to \<^verbatim>\<open>showModal\<close>; it runs when the operator
  confirms the prompt. \<^verbatim>\<open>fw.Stop()\<close> acts on the object the registry points to.
\<close>

definition deleteCmd_ok :: "string \<Rightarrow> ui_state \<Rightarrow> ui_state" where
  "deleteCmd_ok sel v =
     (case forwarders v sel of
        None \<Rightarrow> emit [Log ''Unable to find forwarder %s'' [sel]] v
      | Some fw \<Rightarrow>
          (let v1 = v\<lparr>objs := (objs v)(fw := Stop (objs v fw))\<rparr>;
               v2 = v1\<lparr>forwarders := (forwarders v1)(sel := None)\<rparr>
           in emit [Log ''PortForwards after delete: %#v'' [],
                    TableUpdate,
                    Flash flashInfo (''PortForward '' @ sel @ '' deleted!'')] v2))"

text \<open>The done function that \<^verbatim>\<open>showModal\<close> installs, called with the pressed button.\<close>

definition modalDone :: "string \<Rightarrow> ui_state \<Rightarrow> ui_state" where
  "modalDone b v =
     (case modal v of
        None \<Rightarrow> v
      | Some sel \<Rightarrow>
          upd_view (cur v) (\<lambda>w. w\<lparr>fv_modal := None\<rparr>)
            (emit [DismissModal] (if b = ''OK'' then deleteCmd_ok sel v else v)))"

section \<open>The container view: starting a forward\<close>

text \<open>
  \<^verbatim>\<open>k8s.NewPortForward\<close> allocates the session object; \<^verbatim>\<open>pf.Start\<close> (not among the
  sources) either fails with an error, given here as \<^verbatim>\<open>start_err\<close>, or records the
  path, the container and the ports in the object. On success the handler launches the
  goroutine \<^verbatim>\<open>runForward\<close> and returns.
\<close>

definition portForward :: "string option \<Rightarrow> string \<Rightarrow> string \<Rightarrow> ui_state \<Rightarrow> ui_state" where
  "portForward start_err lport cport v =
     (let co = masterPage v (selectedRow v) 0;
          pf = nextAddr v;
          v1 = v\<lparr>nextAddr := Suc pf\<rparr>
      in case start_err of
           Some err \<Rightarrow> emit [Flash flashErr err] v1
         | None \<Rightarrow>
             (emit [Log ''>>> Starting port forward %q %v'' [cv_path v, lport @ '':'' @ cport]]
                (v1\<lparr>objs := (objs v1)(pf :=
                      \<lparr>pf_path = cv_path v, pf_container = co, pf_localPort = lport,
                       pf_podPort = cport, pf_active = False, pf_stopped = False,
                       pf_age = []\<rparr>)\<rparr>))
               \<lparr>spawned := spawned v1 @ [GoRunForward pf]\<rparr>)"

section \<open>Opening a forwards view\<close>

text \<open>
  \<^verbatim>\<open>newForwardView\<close> builds a view: the struct literal sets \<^verbatim>\<open>Pages\<close> and \<^verbatim>\<open>app\<close>
  only, so the new view's \<^verbatim>\<open>bench\<close> is nil, and its table is new, with nothing
  selected and nothing shown. The result is the pointer to the new view.
\<close>

definition newForwardView :: "ui_state \<Rightarrow> nat \<times> ui_state" where
  "newForwardView v =
     (nextView v,
      v\<lparr>views := (views v)(nextView v :=
            \<lparr>fv_bench = None, fv_selRow = 0, fv_cells = (\<lambda>r c. []), fv_cmdBuff = [],
             fv_modal = None\<rparr>),
        nextView := Suc (nextView v)\<rparr>)"

text \<open>
  \<^verbatim>\<open>refresh\<close> of the forwards view \<^verbatim>\<open>i\<close> hands the hydrated data to the table. The
  table widget is not among the sources: \<^verbatim>\<open>shown\<close> is what its cells read afterwards.
\<close>

definition refresh :: "nat \<Rightarrow> (nat \<Rightarrow> nat \<Rightarrow> string) \<Rightarrow> ui_state \<Rightarrow> ui_state" where
  "refresh i shown v = emit [TableUpdate] (upd_view i (\<lambda>w. w\<lparr>fv_cells := shown\<rparr>) v)"

text \<open>
  \<^verbatim>\<open>watchK9sDir\<close>: \<^verbatim>\<open>new_err\<close> is the error of \<^verbatim>\<open>fsnotify.NewWatcher()\<close>, \<^verbatim>\<open>add_err\<close>
  that of \<^verbatim>\<open>w.Add\<close>; the watcher goroutine is launched between the two.
\<close>

definition watchK9sDir ::
  "string option \<Rightarrow> string option \<Rightarrow> ui_state \<Rightarrow> string option \<times> ui_state" where
  "watchK9sDir new_err add_err v =
     (case new_err of
        Some err \<Rightarrow> (Some err, v)
      | None \<Rightarrow> (add_err, v\<lparr>spawned := spawned v @ [GoUpdateBenchConfig]\<rparr>))"

text \<open>\<^verbatim>\<open>init\<close> of the forwards view on display; it ends by selecting row 1.\<close>

definition init ::
  "pkg_consts \<Rightarrow> string option \<Rightarrow> string option \<Rightarrow> (nat \<Rightarrow> nat \<Rightarrow> string) \<Rightarrow> ui_state \<Rightarrow> ui_state" where
  "init k new_err add_err shown v =
     (case watchK9sDir new_err add_err v of
        (err, v1) \<Rightarrow>
          (let v2 = (case err of
                       Some e \<Rightarrow>
                         emit [Flash flashErr
                                 (''RuRoh! Unable to watch benchmarks directory '' @ K9sHome k
                                    @ '' : '' @ e)] v1
                     | None \<Rightarrow> v1);
               v3 = refresh (cur v2) shown v2
           in upd_view (cur v3) (\<lambda>w. w\<lparr>fv_selRow := 1\<rparr>) v3))"

text \<open>
  The command \<^verbatim>\<open>pf\<close> is registered with \<^verbatim>\<open>newForwardView\<close> as its constructor
  (\<^verbatim>\<open>custRes\<close>). Running the command builds a view with it, puts that view on display
  and calls its \<^verbatim>\<open>init\<close>; the earlier views stay where the closures that captured them
  find them. The command loop itself is not among the sources.
\<close>

definition openForwardView ::
  "pkg_consts \<Rightarrow> string option \<Rightarrow> string option \<Rightarrow> (nat \<Rightarrow> nat \<Rightarrow> string) \<Rightarrow> ui_state \<Rightarrow> ui_state" where
  "openForwardView k new_err add_err shown v =
     (case newForwardView v of
        (i, v1) \<Rightarrow> init k new_err add_err shown (v1\<lparr>cur := i\<rparr>))"

section \<open>Background goroutines\<close>

text \<open>
  A goroutine is the sequence of its statements that touch anything shared. A statement
  either hands a closure to the dispatcher, or acts directly from the background thread
  (\<^verbatim>\<open>pf.SetActive\<close>, \<^verbatim>\<open>app.flash().err\<close>), or blocks (\<^verbatim>\<open>f.ForwardPorts()\<close>, the
  load generator, the timer).
\<close>

datatype action =
    QueueUpdateDraw job
  | QueueUpdate job
  | DirectSetActive addr bool
  | DirectFlash level string
  | CallForwardPorts addr
  | CallBenchRun
  | CallTimeAfter

text \<open>
  \<^verbatim>\<open>runForward\<close>, given what the blocking call \<^verbatim>\<open>f.ForwardPorts()\<close> returns
  (\<^verbatim>\<open>None\<close> for a nil error).
\<close>

definition runForward :: "addr \<Rightarrow> string option \<Rightarrow> action list" where
  "runForward pf forward_err =
     [QueueUpdateDraw (RegisterForward pf),
      DirectSetActive pf True,
      CallForwardPorts pf]
     @ (case forward_err of
          Some err \<Rightarrow> [DirectFlash flashErr err]
        | None \<Rightarrow> [QueueUpdateDraw (UnregisterForward pf)])"

text \<open>
  Modelled from the spec: \<^verbatim>\<open>benchmark.run\<close> (not among the sources) blocks while the
  load generator runs and then invokes the completion callback, which \<^verbatim>\<open>runBenchmark\<close>
  defines as one \<^verbatim>\<open>QueueUpdate\<close>. The argument is the forwards view whose method runs.
\<close>

definition runBenchmark :: "nat \<Rightarrow> action list" where
  "runBenchmark i = [CallBenchRun, QueueUpdate (BenchDone i)]"

definition statusTimer :: "action list" where
  "statusTimer = [CallTimeAfter, QueueUpdate ResetStatus]"

text \<open>
  Modelled from the spec: the dispatcher. \<^verbatim>\<open>QueueUpdate\<close> and \<^verbatim>\<open>QueueUpdateDraw\<close>
  enqueue the closure and return immediately; the UI thread runs the queued closures one
  at a time, in order.
\<close>

definition perform :: "action \<Rightarrow> ui_state \<Rightarrow> ui_state" where
  "perform a v =
     (case a of
        QueueUpdateDraw j \<Rightarrow> v\<lparr>updates := updates v @ [j]\<rparr>
      | QueueUpdate j \<Rightarrow> v\<lparr>updates := updates v @ [j]\<rparr>
      | DirectSetActive pf b \<Rightarrow> v\<lparr>objs := (objs v)(pf := SetActive b (objs v pf))\<rparr>
      | DirectFlash l m \<Rightarrow> emit [Flash l m] v
      | CallForwardPorts pf \<Rightarrow> v
      | CallBenchRun \<Rightarrow> v
      | CallTimeAfter \<Rightarrow> v)"

text \<open>The bodies of the queued closures, run by the UI thread.\<close>

definition run_job :: "job \<Rightarrow> ui_state \<Rightarrow> panic + ui_state" where
  "run_job j v =
     (case j of
        RegisterForward pf \<Rightarrow>
          (let v1 = v\<lparr>forwarders := (forwarders v)(FQN (objs v pf) \<mapsto> pf)\<rparr>
           in Inr (emit [Flash flashInfo
                           (''PortForward activated '' @ pf_path (objs v pf) @ '':''
                              @ hd (Ports (objs v pf))),
                         DismissModal] v1))
      | UnregisterForward pf \<Rightarrow>
          (let v1 = v\<lparr>forwarders := (forwarders v)(FQN (objs v pf) := None)\<rparr>
           in Inr (v1\<lparr>objs := (objs v1)(pf := SetActive False (objs v1 pf))\<rparr>))
      | BenchDone i \<Rightarrow> benchDone i v
      | ResetStatus \<Rightarrow> Inr (emit [StatusReset] v))"

definition dispatch :: "ui_state \<Rightarrow> panic + ui_state" where
  "dispatch v =
     (case updates v of
        [] \<Rightarrow> Inr v
      | j # js \<Rightarrow> run_job j (v\<lparr>updates := js\<rparr>))"

text \<open>
  Everything that can happen to the state: a key handler or a dialog button on the UI
  thread, for the forwards view on display; the command that opens a new forwards view;
  the UI thread running the next queued closure; or the next statement of a background
  goroutine.
\<close>

datatype event =
    KeyBench
  | KeyBenchStop
  | KeyDelete
  | ModalButton string
  | ForwardDialogOK "string option" string string
  | OpenForwardView "string option" "string option" "nat \<Rightarrow> nat \<Rightarrow> string"
  | Dispatch
  | Background action

definition step :: "helpers \<Rightarrow> pkg_consts \<Rightarrow> event \<Rightarrow> ui_state \<Rightarrow> panic + ui_state" where
  "step h k e v =
     (case e of
        KeyBench \<Rightarrow> Inr (benchCmd h k v)
      | KeyBenchStop \<Rightarrow> Inr (benchStopCmd v)
      | KeyDelete \<Rightarrow> Inr (deleteCmd h v)
      | ModalButton b \<Rightarrow> Inr (modalDone b v)
      | ForwardDialogOK start_err lport cport \<Rightarrow> Inr (portForward start_err lport cport v)
      | OpenForwardView new_err add_err shown \<Rightarrow>
          Inr (openForwardView k new_err add_err shown v)
      | Dispatch \<Rightarrow> dispatch v
      | Background a \<Rightarrow> Inr (perform a v))"

fun run :: "helpers \<Rightarrow> pkg_consts \<Rightarrow> event list \<Rightarrow> ui_state \<Rightarrow> panic + ui_state" where
  "run h k [] v = Inr v"
| "run h k (e # es) v = (case step h k e v of Inl p \<Rightarrow> Inl p | Inr v' \<Rightarrow> run h k es v')"

section \<open>The configuration watcher\<close>

definition benchConfig :: "helpers \<Rightarrow> pkg_consts \<Rightarrow> string \<Rightarrow> string" where
  "benchConfig h k cluster =
     filepath_Join h (K9sHome k) (K9sBench k @ ''-'' @ cluster @ ''.yml'')"

text \<open>
  \<^verbatim>\<open>reload\<close> of the forwards view \<^verbatim>\<open>i\<close>, the callback that the view hands to
  \<^verbatim>\<open>watchK9sDir\<close>. It computes the path from the cluster selected when it runs.
  Modelled from the spec: \<^verbatim>\<open>app.bench.Reload\<close> (not among the sources) either fails,
  leaving the loaded configuration in effect, or replaces it by the file's content;
  \<^verbatim>\<open>disk\<close> gives the outcome for a path.
\<close>

definition reload ::
  "helpers \<Rightarrow> pkg_consts \<Rightarrow> (string \<Rightarrow> string + Benchmarks) \<Rightarrow> (nat \<Rightarrow> nat \<Rightarrow> string)
     \<Rightarrow> nat \<Rightarrow> ui_state \<Rightarrow> ui_state" where
  "reload h k disk shown i v =
     (let path = benchConfig h k (CurrentCluster v);
          v1 = emit [Log ''Reloading config %s'' [path]] v;
          v2 = (case disk path of
                  Inl err \<Rightarrow> emit [Flash flashErr err] v1
                | Inr b \<Rightarrow> v1\<lparr>app_bench := b\<rparr>)
      in refresh i shown v2)"

text \<open>
  What the goroutine \<^verbatim>\<open>updateBenchConfig\<close> meets, in order: a message its
  \<^verbatim>\<open>select\<close> receives (an event with its \<^verbatim>\<open>Name\<close>, a watcher error, or the context's
  \<^verbatim>\<open>Done\<close>), or, between two messages, the UI thread changing
  \<^verbatim>\<open>app.config.K9s.CurrentCluster\<close>.
\<close>

datatype chan_msg = EventMsg string | ErrorMsg string | CtxDone

datatype watch_input = Recv chan_msg | SwitchCluster string

datatype watch_action =
    QueueReload
  | WatchLog string "string list"
  | WatcherClose

text \<open>
  The \<^verbatim>\<open>for\<close>/\<open>select\<close> loop with the local variable \<^verbatim>\<open>file\<close>. The loop never reads
  the cluster again, so a switch leaves it as it is. An empty input means the loop is
  blocked in \<^verbatim>\<open>select\<close>.
\<close>

fun watch_loop :: "string \<Rightarrow> watch_input list \<Rightarrow> watch_action list" where
  "watch_loop file [] = []"
| "watch_loop file (SwitchCluster c # ins) = watch_loop file ins"
| "watch_loop file (Recv (EventMsg name) # ins) =
     (if file = '''' \<or> name = file
      then [WatchLog ''Capuring Event %#v'' [name], QueueReload]
      else [])
     @ watch_loop file ins"
| "watch_loop file (Recv (ErrorMsg err) # ins) = [WatchLog ''FS %s watcher failed'' [file]]"
| "watch_loop file (Recv CtxDone # ins) =
     [WatchLog ''<<FS %s WATCHER DONE>>'' [file], WatcherClose]"

text \<open>\<^verbatim>\<open>cluster\<close> is \<^verbatim>\<open>app.config.K9s.CurrentCluster\<close> when the goroutine starts.\<close>

definition updateBenchConfig ::
  "helpers \<Rightarrow> pkg_consts \<Rightarrow> string \<Rightarrow> watch_input list \<Rightarrow> watch_action list" where
  "updateBenchConfig h k cluster ins = watch_loop (benchConfig h k cluster) ins"

text \<open>Whether the loop has returned: it has received an error or the context's end.\<close>

fun exited :: "watch_input list \<Rightarrow> bool" where
  "exited [] = False"
| "exited (SwitchCluster c # ins) = exited ins"
| "exited (Recv (EventMsg name) # ins) = exited ins"
| "exited (Recv (ErrorMsg err) # ins) = True"
| "exited (Recv CtxDone # ins) = True"

text \<open>The cluster selected after the switches of an input, starting from \<^verbatim>\<open>c\<close>.\<close>

fun cluster_after :: "string \<Rightarrow> watch_input list \<Rightarrow> string" where
  "cluster_after c [] = c"
| "cluster_after c (SwitchCluster c' # ins) = cluster_after c' ins"
| "cluster_after c (Recv m # ins) = cluster_after c ins"

text \<open>
  The watcher as the spec words it, for comparison with the loop of the sources: the
  expected name is computed again, from the cluster selected at that time, for every
  event, and the reload is queued exactly when the event's path is that name.
\<close>

fun updateBenchConfig_spec ::
  "helpers \<Rightarrow> pkg_consts \<Rightarrow> string \<Rightarrow> watch_input list \<Rightarrow> watch_action list" where
  "updateBenchConfig_spec h k cluster [] = []"
| "updateBenchConfig_spec h k cluster (SwitchCluster c # ins) =
     updateBenchConfig_spec h k c ins"
| "updateBenchConfig_spec h k cluster (Recv (EventMsg name) # ins) =
     (if name = benchConfig h k cluster
      then [WatchLog ''Capuring Event %#v'' [name], QueueReload]
      else [])
     @ updateBenchConfig_spec h k cluster ins"
| "updateBenchConfig_spec h k cluster (Recv (ErrorMsg err) # ins) =
     [WatchLog ''FS %s watcher failed'' [benchConfig h k cluster]]"
| "updateBenchConfig_spec h k cluster (Recv CtxDone # ins) =
     [WatchLog ''<<FS %s WATCHER DONE>>'' [benchConfig h k cluster], WatcherClose]"

section \<open>Hydrating the forwards table\<close>

text \<open>
  Modelled from the spec: the types \<^verbatim>\<open>RowEvent\<close> and \<^verbatim>\<open>TableData\<close> of package
  \<^verbatim>\<open>resource\<close> (not among the sources): a row event is an action with fields and
  deltas, a table is a header, the numeric columns, the rows by key and a namespace.
\<close>

datatype row_action = New | Update | Delete | Unchanged









section \<open>Sample values\<close>

text \<open>
  Concrete values at which the theorems are instantiated. The helper functions follow
  the spec where it speaks (\<^verbatim>\<open>fqn = path + "|" + container\<close>,
  \<^verbatim>\<open>containerID = path + "|" + container\<close>, a path is namespace/pod); the others only
  need to be some function.
\<close>

definition sample_helpers :: helpers where
  "sample_helpers =
     \<lparr>containerID = (\<lambda>p c. p @ ''|'' @ c),
      fwFQN = (\<lambda>p c. p @ ''|'' @ c),
      fqn = (\<lambda>ns n. ns @ ''/'' @ n),
      namespaced = (\<lambda>p. (takeWhile (\<lambda>c. c \<noteq> CHR ''/'') p,
                          drop 1 (dropWhile (\<lambda>c. c \<noteq> CHR ''/'') p))),
      urlFor = (\<lambda>cfg co port. ''http://localhost:'' @ port @ http_Path (cfg_HTTP cfg)),
      asNum = (\<lambda>n. if n = 0 then ''0'' else ''n''),
      newBenchmark = (\<lambda>base cfg. (Some \<lparr>bm_config = cfg, bm_canceled = False\<rparr>, None)),
      filepath_Join = (\<lambda>dir name. dir @ ''/'' @ name)\<rparr>"

definition sample_consts :: pkg_consts where
  "sample_consts =
     \<lparr>K9sHome = ''/home/op/.k9s'', K9sBench = ''bench'', DefaultC = 1, DefaultN = 200,
      DefaultMethod = ''GET'', AllNamespaces = ''''\<rparr>"

definition zeroForward :: PortForward where
  "zeroForward =
     \<lparr>pf_path = [], pf_container = [], pf_localPort = [], pf_podPort = [],
      pf_active = False, pf_stopped = False, pf_age = []\<rparr>"

text \<open>
  A state with an empty registry and one forwards view, view 0, on display: its
  benchmark slot is idle and row 1 of its table, the selected one, shows the forward of
  container \<^verbatim>\<open>app\<close> of pod \<^verbatim>\<open>ns/pod\<close>.
\<close>

definition sample_row :: "nat \<Rightarrow> string" where
  "sample_row c =
     (if c = 0 then ''ns'' else if c = 1 then ''pod'' else if c = 2 then ''app''
      else if c = 3 then ''8080:80'' else if c = 4 then ''http://localhost:8080/''
      else [])"

definition sample_view :: fview where
  "sample_view =
     \<lparr>fv_bench = None,
      fv_selRow = 1,
      fv_cells = (\<lambda>r c. if r = 1 then sample_row c else []),
      fv_cmdBuff = [],
      fv_modal = None\<rparr>"

definition sample_app :: ui_state where
  "sample_app =
     \<lparr>forwarders = Map.empty,
      objs = (\<lambda>a. zeroForward),
      nextAddr = 0,
      app_bench = \<lparr>Defaults_C = 10, Defaults_N = 100, Containers = Map.empty\<rparr>,
      CurrentCluster = ''a'',
      updates = [],
      effects = [],
      spawned = [],
      views = (\<lambda>i. sample_view),
      cur = 0,
      nextView = 1,
      cv_path = ''ns/pod'',
      selectedRow = 1,
      masterPage = (\<lambda>r c. if r = 1 \<and> c = 0 then ''app'' else [])\<rparr>"

text \<open>States reached from the sample state, named for the closed theorems.\<close>

definition sample_running :: ui_state where
  "sample_running = benchCmd sample_helpers sample_consts sample_app"

definition sample_canceled :: ui_state where
  "sample_canceled = benchStopCmd sample_running"

definition sample_started :: ui_state where
  "sample_started = portForward None ''8080'' ''80'' sample_app"

text \<open>
  A schedule in which the UI thread runs the dispatcher after every statement of a
  goroutine (running it on an empty queue changes nothing).
\<close>

definition eager :: "action list \<Rightarrow> event list" where
  "eager as = concat (map (\<lambda>a. [Background a, Dispatch]) as)"

text \<open>
  A statement by which a goroutine writes the registry, the benchmark slot or a field of
  a session itself, instead of queueing a closure.
\<close>

definition direct_write :: "action \<Rightarrow> bool" where
  "direct_write a = (case a of DirectSetActive pf b \<Rightarrow> True | _ \<Rightarrow> False)"

text \<open>
  The sample forward from the dialog to the end of its goroutine, given what
  \<^verbatim>\<open>ForwardPorts\<close> returns.
\<close>

definition sample_schedule :: "string option \<Rightarrow> event list" where
  "sample_schedule forward_err =
     ForwardDialogOK None ''8080'' ''80'' # eager (runForward 0 forward_err)"

text \<open>
  While the benchmark of view 0 runs, the operator opens the forwards view again: the
  watcher is set up without error and the new table shows the same row.
\<close>

definition sample_reopened :: ui_state where
  "sample_reopened =
     openForwardView sample_consts None None (\<lambda>r c. if r = 1 then sample_row c else [])
       sample_running"

section \<open>Facts about the handlers\<close>

lemmas sample_defs =
  sample_app_def sample_view_def sample_helpers_def sample_consts_def sample_row_def zeroForward_def
  sample_running_def sample_canceled_def sample_started_def sample_reopened_def

lemmas handler_defs =
  getSelectedItem_def benchCmd_def benchStopCmd_def benchDone_def emit_def cancel_def
  defaultConfig_def deleteCmd_def deleteCmd_ok_def modalDone_def portForward_def
  perform_def run_job_def dispatch_def step_def FQN_def Ports_def SetActive_def Stop_def
  upd_view_def set_bench_def

lemmas view_defs =
  openForwardView_def newForwardView_def init_def watchK9sDir_def refresh_def

lemma benchCmd_occupied:
  assumes "bench v \<noteq> None"
  shows "bench (benchCmd h k v) = bench v"
    and "spawned (benchCmd h k v) = spawned v"
    and "updates (benchCmd h k v) = updates v"
    and "forwarders (benchCmd h k v) = forwarders v"
  using assms by (simp_all add: benchCmd_def emit_def Let_def)

lemma benchCmd_occupied_effects:
  assumes "bench v \<noteq> None" and "getSelectedItem h v \<noteq> []"
  shows "effects (benchCmd h k v) =
           effects v @ [Flash flashErr ''Only one benchmark allowed at a time'']"
  using assms by (simp add: benchCmd_def emit_def Let_def)


lemma benchDone_clears:
  assumes "bench v = Some b"
  shows "\<exists>v'. benchDone (cur v) v = Inr v' \<and> bench v' = None \<and> forwarders v' = forwarders v
           \<and> selRow v' = selRow v \<and> cells v' = cells v \<and> app_bench v' = app_bench v
           \<and> cur v' = cur v"
  using assms by (simp add: benchDone_def emit_def set_bench_def upd_view_def Let_def)


lemma deleteCmd_ok_bench: "bench (deleteCmd_ok sel v) = bench v"
  by (simp add: deleteCmd_ok_def emit_def Let_def split: option.splits)

lemma set_bench_other: "i \<noteq> j \<Longrightarrow> fv_bench (views (set_bench j x v) i) = fv_bench (views v i)"
  by (simp add: set_bench_def upd_view_def)

lemma benchCmd_slot_kept:
  assumes "fv_bench (views v i) \<noteq> None"
  shows "fv_bench (views (benchCmd h k v) i) \<noteq> None"
proof (cases "i = cur v")
  case True
  with assms show ?thesis
    by (simp add: benchCmd_def emit_def Let_def)
next
  case False
  with assms show ?thesis
    by (simp add: benchCmd_def emit_def Let_def set_bench_def upd_view_def split: option.splits)
qed

lemma benchDone_slot_kept:
  assumes "benchDone j v = Inr v'" and "fv_bench (views v i) \<noteq> None" and "i \<noteq> j"
  shows "fv_bench (views v' i) \<noteq> None"
  using assms
  by (auto simp: benchDone_def emit_def Let_def set_bench_def upd_view_def
      split: option.splits if_splits)

text \<open>
  Within one forwards view the guard holds: the slot of a view that has been built is
  emptied by the completion closure of that view and by no other step.
\<close>

lemma step_keeps_slot:
  assumes "step h k e v = Inr v'" and "i < nextView v"
    and "fv_bench (views v i) \<noteq> None" and "fv_bench (views v' i) = None"
  shows "e = Dispatch \<and> (\<exists>js. updates v = BenchDone i # js)"
proof (cases e)
  case KeyBench
  with assms benchCmd_slot_kept [of v i h k] show ?thesis
    by (auto simp: step_def)
next
  case KeyBenchStop
  with assms show ?thesis
    by (auto simp: step_def benchStopCmd_def emit_def set_bench_def upd_view_def Let_def
        split: option.splits if_splits)
next
  case KeyDelete
  with assms show ?thesis
    by (auto simp: step_def deleteCmd_def emit_def upd_view_def Let_def split: if_splits)
next
  case (ModalButton b)
  with assms show ?thesis
    by (auto simp: step_def modalDone_def emit_def upd_view_def deleteCmd_ok_def Let_def
        split: option.splits if_splits)
next
  case (ForwardDialogOK start_err lport cport)
  with assms show ?thesis
    by (auto simp: step_def portForward_def emit_def Let_def split: option.splits)
next
  case (OpenForwardView new_err add_err shown)
  with assms show ?thesis
    by (auto simp: step_def openForwardView_def newForwardView_def init_def watchK9sDir_def
        refresh_def emit_def upd_view_def Let_def split: option.splits if_splits)
next
  case Dispatch
  show ?thesis
  proof (cases "updates v")
    case Nil
    with Dispatch assms show ?thesis by (auto simp: step_def dispatch_def)
  next
    case (Cons j js)
    show ?thesis
    proof (cases j)
      case (BenchDone n)
      with Cons Dispatch assms(1) have "benchDone n (v\<lparr>updates := js\<rparr>) = Inr v'"
        by (simp add: step_def dispatch_def run_job_def)
      from benchDone_slot_kept [OF this, of i] assms(3,4) have "i = n"
        by auto
      with Cons BenchDone Dispatch show ?thesis by simp
    next
      case (RegisterForward a)
      with Cons Dispatch assms show ?thesis
        by (auto simp: step_def dispatch_def run_job_def emit_def Let_def)
    next
      case (UnregisterForward a)
      with Cons Dispatch assms show ?thesis
        by (auto simp: step_def dispatch_def run_job_def emit_def Let_def)
    next
      case ResetStatus
      with Cons Dispatch assms show ?thesis
        by (auto simp: step_def dispatch_def run_job_def emit_def Let_def)
    qed
  qed
next
  case (Background a)
  with assms show ?thesis
    by (cases a) (auto simp: step_def perform_def emit_def)
qed

lemma view_single_flight:
  "(bench v \<noteq> None \<longrightarrow>
      bench (benchCmd h k v) = bench v \<and> spawned (benchCmd h k v) = spawned v
      \<and> (getSelectedItem h v \<noteq> [] \<longrightarrow>
           effects (benchCmd h k v) =
             effects v @ [Flash flashErr ''Only one benchmark allowed at a time'']))
   \<and> (bench v \<noteq> None \<longrightarrow> (\<exists>v'. run_job (BenchDone (cur v)) v = Inr v' \<and> bench v' = None))"
proof (intro conjI impI)
  assume occ: "bench v \<noteq> None"
  show "bench (benchCmd h k v) = bench v"
    using occ by (rule benchCmd_occupied(1))
  show "spawned (benchCmd h k v) = spawned v"
    using occ by (rule benchCmd_occupied(2))
  show "effects (benchCmd h k v) =
          effects v @ [Flash flashErr ''Only one benchmark allowed at a time'']"
    if "getSelectedItem h v \<noteq> []"
    using occ that by (rule benchCmd_occupied_effects)
  from occ obtain b where "bench v = Some b" by auto
  from benchDone_clears [OF this]
  show "\<exists>v'. run_job (BenchDone (cur v)) v = Inr v' \<and> bench v' = None"
    by (auto simp: run_job_def)
qed

lemma watch_loop_snoc:
  "watch_loop fl (pre @ [Recv (EventMsg name)]) =
     watch_loop fl pre
     @ (if exited pre then []
        else if fl = [] \<or> name = fl
        then [WatchLog ''Capuring Event %#v'' [name], QueueReload]
        else [])"
  by (induction fl pre rule: watch_loop.induct) simp_all

lemma watch_loop_switch: "watch_loop fl (pre @ [SwitchCluster c]) = watch_loop fl pre"
  by (induction fl pre rule: watch_loop.induct) simp_all





text \<open>
  The name is computed once: for every event received before the loop returns, the
  reload is queued exactly when the captured name is empty or is the event's path, and a
  cluster switch changes nothing.
\<close>

lemma watcher_matches_captured_name:
  "updateBenchConfig h k cluster (pre @ [Recv (EventMsg name)]) =
     updateBenchConfig h k cluster pre
     @ (if exited pre then []
        else if benchConfig h k cluster = [] \<or> name = benchConfig h k cluster
        then [WatchLog ''Capuring Event %#v'' [name], QueueReload]
        else [])
   \<and> updateBenchConfig h k cluster (pre @ [SwitchCluster c]) = updateBenchConfig h k cluster pre"
  by (simp add: updateBenchConfig_def watch_loop_snoc watch_loop_switch)

section \<open>The claims\<close>

text \<open>
  C1. The claim: the configuration a Run uses is the field-by-field merge of the
  defaults and the container's override, so that defaults \<open>{C:10, N:100}\<close> and an
  override \<open>{C:0, N:50}\<close> give \<open>{C:10, N:50}\<close>. Evaluated at that input, with the
  override stored under the key that \<^verbatim>\<open>benchCmd\<close> looks up: \<^verbatim>\<open>loadConfig\<close>, which fills
  the table's columns, yields 10 and 50, while the benchmark that \<^verbatim>\<open>benchCmd\<close> starts
  holds the override as it is, with \<open>C = 0\<close>.
\<close>

theorem benchCmd_override_not_merged:
  "loadConfig 10 100 (containerID sample_helpers ''ns/pod|app'' ''app'')
       [containerID sample_helpers ''ns/pod|app'' ''app'' \<mapsto> zeroConfig\<lparr>cfg_N := 50\<rparr>]
     = (10, 50, zeroConfig\<lparr>cfg_N := 50\<rparr>)
   \<and> getSelectedItem sample_helpers sample_app = ''ns/pod|app''
   \<and> cells sample_app (selRow sample_app) 2 = ''app''
   \<and> bench (benchCmd sample_helpers sample_consts
        (sample_app\<lparr>app_bench :=
           \<lparr>Defaults_C = 10, Defaults_N = 100,
            Containers = [containerID sample_helpers ''ns/pod|app'' ''app''
                            \<mapsto> zeroConfig\<lparr>cfg_N := 50\<rparr>]\<rparr>\<rparr>))
     = Some \<lparr>bm_config = zeroConfig\<lparr>cfg_N := 50, cfg_Name := ''ns/pod|app''\<rparr>,
             bm_canceled = False\<rparr>
   \<and> cfg_C (zeroConfig\<lparr>cfg_N := 50, cfg_Name := ''ns/pod|app''\<rparr>) = 0"
  by (simp add: loadConfig_def zeroConfig_def sample_defs handler_defs)




text \<open>
  C3. The claim: the flag \<^verbatim>\<open>active\<close> becomes true only after the transport has been
  established, and never before or after a transport failure. A run of \<^verbatim>\<open>runForward\<close>
  whose \<^verbatim>\<open>ForwardPorts\<close> call fails with "boom": after the goroutine's first two
  statements, before \<^verbatim>\<open>ForwardPorts\<close> has been called at all, the flag of the session is
  already true, and it is still true when the failure has been reported.
\<close>

theorem active_set_before_transport:
  "runForward 0 (Some ''boom'') =
     [QueueUpdateDraw (RegisterForward 0), DirectSetActive 0 True, CallForwardPorts 0,
      DirectFlash flashErr ''boom'']
   \<and> \<not> pf_active (objs sample_started 0)
   \<and> \<not> isl (run sample_helpers sample_consts
                (map Background (take 2 (runForward 0 (Some ''boom'')))) sample_started)
   \<and> pf_active (objs (projr (run sample_helpers sample_consts
                (map Background (take 2 (runForward 0 (Some ''boom'')))) sample_started)) 0)
   \<and> \<not> isl (run sample_helpers sample_consts
                (eager (runForward 0 (Some ''boom''))) sample_started)
   \<and> pf_active (objs (projr (run sample_helpers sample_consts
                (eager (runForward 0 (Some ''boom''))) sample_started)) 0)"
  by (simp add: runForward_def eager_def sample_defs handler_defs)

text \<open>
  C3 as amended. \<^verbatim>\<open>runForward\<close> sets the flag to true exactly once, as its second
  statement, after queueing the registration and before it calls the blocking
  \<^verbatim>\<open>ForwardPorts\<close>, whatever that call will return. The flag is set back to false only
  by the closure that \<^verbatim>\<open>runForward\<close> queues when \<^verbatim>\<open>ForwardPorts\<close> returns without an
  error.
\<close>

theorem active_set_once_before_blocking_call:
  "runForward pf err ! 1 = DirectSetActive pf True
   \<and> runForward pf err ! 2 = CallForwardPorts pf
   \<and> count_list (runForward pf err) (DirectSetActive pf True) = 1
   \<and> DirectSetActive pf False \<notin> set (runForward pf err)
   \<and> pf_active (objs (perform (DirectSetActive pf True) v) pf)
   \<and> (QueueUpdateDraw (UnregisterForward pf) \<in> set (runForward pf err)) = (err = None)
   \<and> (\<exists>v'. run_job (UnregisterForward pf) v = Inr v' \<and> \<not> pf_active (objs v' pf))
   \<and> (\<exists>v'. run_job (RegisterForward pf) v = Inr v' \<and> objs v' = objs v)"
  by (cases err)
     (simp_all add: runForward_def perform_def run_job_def SetActive_def emit_def Let_def)

text \<open>
  C4. The claim: when the blocking transport call returns an error, the session reports
  it once and removes its entry from the registry. The sample forward is started and its
  \<^verbatim>\<open>ForwardPorts\<close> call fails with "bind: address already in use"; the UI thread runs
  every queued closure. The error is reported once, but the entry is still in the
  registry, still marked active, and nothing is left in the queue that would remove it.
\<close>

theorem failed_forward_stays_registered:
  "\<not> isl (run sample_helpers sample_consts (sample_schedule (Some ''bind: address already in use''))
            sample_app)
   \<and> forwarders (projr (run sample_helpers sample_consts
          (sample_schedule (Some ''bind: address already in use'')) sample_app)) ''ns/pod|app''
       = Some 0
   \<and> pf_active (objs (projr (run sample_helpers sample_consts
          (sample_schedule (Some ''bind: address already in use'')) sample_app)) 0)
   \<and> updates (projr (run sample_helpers sample_consts
          (sample_schedule (Some ''bind: address already in use'')) sample_app)) = []
   \<and> count_list (effects (projr (run sample_helpers sample_consts
          (sample_schedule (Some ''bind: address already in use'')) sample_app)))
         (Flash flashErr ''bind: address already in use'') = 1
   \<and> \<not> isl (run sample_helpers sample_consts (sample_schedule None) sample_app)
   \<and> forwarders (projr (run sample_helpers sample_consts (sample_schedule None) sample_app))
         ''ns/pod|app'' = None
   \<and> \<not> pf_active (objs (projr (run sample_helpers sample_consts (sample_schedule None)
         sample_app)) 0)"
  by (simp add: sample_schedule_def runForward_def eager_def sample_defs handler_defs)

text \<open>
  C5. The claim: at most one benchmark session is running system-wide, every Run while
  one is running fails, and the completion callback is the only way a new Run may
  start. The slot \<^verbatim>\<open>bench\<close> is a field of each forwards view, and a view built by
  \<^verbatim>\<open>newForwardView\<close> starts with it empty. In the sample state a benchmark is started
  in view 0. Before it ends the operator opens the forwards view again, which builds
  view 1, and presses the benchmark key on the same row: the guard of view 1 finds its
  own slot empty, no "Only one benchmark allowed at a time" is reported, a second
  benchmark is started and a second goroutine launched, while the session of view 0 is
  still in its slot, neither canceled nor completed.
\<close>

theorem second_view_starts_second_benchmark:
  "cur sample_running = 0
   \<and> bench sample_running =
       Some \<lparr>bm_config = (defaultConfig sample_consts)\<lparr>cfg_Name := ''ns/pod|app''\<rparr>,
              bm_canceled = False\<rparr>
   \<and> spawned sample_running = [GoRunBenchmark 0]
   \<and> updates sample_running = []
   \<and> cur sample_reopened = 1
   \<and> fv_bench (views sample_reopened 0) = bench sample_running
   \<and> bench sample_reopened = None
   \<and> getSelectedItem sample_helpers sample_reopened = ''ns/pod|app''
   \<and> bench (benchCmd sample_helpers sample_consts sample_reopened) =
       Some \<lparr>bm_config = (defaultConfig sample_consts)\<lparr>cfg_Name := ''ns/pod|app''\<rparr>,
              bm_canceled = False\<rparr>
   \<and> fv_bench (views (benchCmd sample_helpers sample_consts sample_reopened) 0) =
       bench sample_running
   \<and> spawned (benchCmd sample_helpers sample_consts sample_reopened) =
       [GoRunBenchmark 0, GoUpdateBenchConfig, GoRunBenchmark 1]
   \<and> Flash flashErr ''Only one benchmark allowed at a time''
       \<notin> set (effects (benchCmd sample_helpers sample_consts sample_reopened))"
  by (simp add: sample_defs handler_defs view_defs Let_def)




text \<open>
  C7. The closure that \<^verbatim>\<open>deleteCmd\<close> runs on confirmation is the registry's Stop. For a
  key that is not registered it writes one log line and changes nothing else; for a
  registered key it calls \<^verbatim>\<open>Stop\<close> on that session and removes the key, and only that
  key, from the registry. It always returns, and a second call finds the key missing.
\<close>

theorem deleteCmd_ok_stops_and_removes:
  "(forwarders v sel = None \<longrightarrow>
      deleteCmd_ok sel v = v\<lparr>effects := effects v @ [Log ''Unable to find forwarder %s'' [sel]]\<rparr>)
   \<and> (forwarders v sel = Some fw \<longrightarrow>
        forwarders (deleteCmd_ok sel v) = (forwarders v)(sel := None)
        \<and> pf_stopped (objs (deleteCmd_ok sel v) fw)
        \<and> (\<forall>a. a \<noteq> fw \<longrightarrow> objs (deleteCmd_ok sel v) a = objs v a))
   \<and> forwarders (deleteCmd_ok sel v) sel = None
   \<and> forwarders (deleteCmd_ok sel (deleteCmd_ok sel v)) = forwarders (deleteCmd_ok sel v)"
  by (auto simp: deleteCmd_ok_def emit_def Stop_def Let_def split: option.splits)

theorem deleteCmd_ok_stops_and_removes_witness:
  "forwarders sample_app ''ns/pod|app'' = None
   \<and> deleteCmd_ok ''ns/pod|app'' sample_app =
       sample_app\<lparr>effects := effects sample_app @ [Log ''Unable to find forwarder %s'' [''ns/pod|app'']]\<rparr>
   \<and> forwarders (sample_started\<lparr>forwarders := [''ns/pod|app'' \<mapsto> 0]\<rparr>) ''ns/pod|app'' = Some 0
   \<and> forwarders (deleteCmd_ok ''ns/pod|app'' (sample_started\<lparr>forwarders := [''ns/pod|app'' \<mapsto> 0]\<rparr>))
       = Map.empty
   \<and> pf_stopped (objs (deleteCmd_ok ''ns/pod|app''
        (sample_started\<lparr>forwarders := [''ns/pod|app'' \<mapsto> 0]\<rparr>)) 0)
   \<and> objs (deleteCmd_ok ''ns/pod|app'' (sample_started\<lparr>forwarders := [''ns/pod|app'' \<mapsto> 0]\<rparr>)) 1
       = objs (sample_started\<lparr>forwarders := [''ns/pod|app'' \<mapsto> 0]\<rparr>) 1"
proof -
  have none: "forwarders sample_app ''ns/pod|app'' = None"
    by (simp add: sample_defs)
  have some: "forwarders (sample_started\<lparr>forwarders := [''ns/pod|app'' \<mapsto> 0]\<rparr>) ''ns/pod|app'' = Some 0"
    by simp
  have one: "(1::nat) \<noteq> 0" by simp
  from deleteCmd_ok_stops_and_removes [of sample_app "''ns/pod|app''" 0]
    deleteCmd_ok_stops_and_removes
      [of "sample_started\<lparr>forwarders := [''ns/pod|app'' \<mapsto> 0]\<rparr>" "''ns/pod|app''" 0]
    none some one
  show ?thesis by simp
qed

text \<open>
  C8. The claim: for every event the expected file name is computed again from the
  cluster selected at that time, and the reload is queued exactly when the event's path
  is that name. The loop starts while cluster \<^verbatim>\<open>a\<close> is selected; the operator switches
  to cluster \<^verbatim>\<open>b\<close>; then the file of cluster \<^verbatim>\<open>b\<close> is written. The event's path is
  the name computed for the selected cluster, yet the loop queues nothing, where the
  watcher of the claim queues the reload. A write of the file of cluster \<^verbatim>\<open>a\<close>, which
  is no longer selected, does queue the reload, and \<^verbatim>\<open>reload\<close>, which computes the path
  when it runs, then reads the file of cluster \<^verbatim>\<open>b\<close>.
\<close>

theorem watcher_keeps_first_cluster:
  "cluster_after ''a'' [SwitchCluster ''b''] = ''b''
   \<and> benchConfig sample_helpers sample_consts ''b'' = ''/home/op/.k9s/bench-b.yml''
   \<and> updateBenchConfig sample_helpers sample_consts ''a''
        [SwitchCluster ''b'', Recv (EventMsg ''/home/op/.k9s/bench-b.yml'')] = []
   \<and> updateBenchConfig_spec sample_helpers sample_consts ''a''
        [SwitchCluster ''b'', Recv (EventMsg ''/home/op/.k9s/bench-b.yml'')]
       = [WatchLog ''Capuring Event %#v'' [''/home/op/.k9s/bench-b.yml''], QueueReload]
   \<and> updateBenchConfig sample_helpers sample_consts ''a''
        [SwitchCluster ''b'', Recv (EventMsg ''/home/op/.k9s/bench-a.yml'')]
       = [WatchLog ''Capuring Event %#v'' [''/home/op/.k9s/bench-a.yml''], QueueReload]
   \<and> take 1 (effects (reload sample_helpers sample_consts disk shown 0
                (sample_app\<lparr>CurrentCluster := ''b''\<rparr>)))
       = [Log ''Reloading config %s'' [''/home/op/.k9s/bench-b.yml'']]"
  by (simp add: updateBenchConfig_def benchConfig_def reload_def refresh_def emit_def
      upd_view_def Let_def sample_helpers_def sample_consts_def sample_app_def
      split: sum.splits)

text \<open>
  C9. The claim: a background goroutine never writes a session's fields, the registry or
  the benchmark slot itself. The second statement of \<^verbatim>\<open>runForward\<close> is
  \<^verbatim>\<open>pf.SetActive(true)\<close>, made by the goroutine: it changes the session's flag at once
  and queues nothing. The registry writes of \<^verbatim>\<open>runForward\<close> and the slot write of
  \<^verbatim>\<open>runBenchmark\<close> are queued, as is \<^verbatim>\<open>pf.SetActive(false)\<close>.
\<close>

theorem runForward_writes_directly:
  "list_ex direct_write (runForward pf err)
   \<and> runForward pf err ! 1 = DirectSetActive pf True
   \<and> objs (perform (runForward pf err ! 1) v) pf = (objs v pf)\<lparr>pf_active := True\<rparr>
   \<and> updates (perform (runForward pf err ! 1) v) = updates v
   \<and> \<not> list_ex direct_write (runBenchmark i)
   \<and> \<not> list_ex direct_write statusTimer"
  by (cases err)
     (simp_all add: runForward_def runBenchmark_def statusTimer_def direct_write_def
        perform_def SetActive_def)




end
